theory Spec2Isabelle
  imports Complex_Main "HOL-Library.AList"
begin

section \<open>The call record (CallManager.ts, interface Call)\<close>

text \<open>
  The string unions of the interface are datatypes. A \<open>Date\<close> is its millisecond
  timestamp (\<open>getTime()\<close>), an \<open>int\<close>. An optional property is an \<open>option\<close>:
  \<open>None\<close> is a property that is absent (or \<open>null\<close> in a database row).
  Record fields share one name space in Isabelle, so the fields of \<open>Call\<close> carry the
  prefix \<open>c_\<close>, those of \<open>Partial<Call>\<close> the prefix \<open>p_\<close>.
\<close>

datatype Direction = Incoming | Outgoing

datatype Status = Initiated | Ringing | Answered | Completed | Failed | Busy | NoAnswer

datatype Sentiment = Positive | Neutral | Negative

record Call =
  c_id :: string
  c_clientId :: "string option"
  c_phoneNumber :: string
  c_direction :: Direction
  c_status :: Status
  c_duration :: int
  c_recordingUrl :: "string option"
  c_transcript :: "string option"
  c_summary :: "string option"
  c_sentiment :: "Sentiment option"
  c_confidenceScore :: "rat option"
  c_createdAt :: int
  c_updatedAt :: int

text \<open>\<open>Partial<Call>\<close>: every property of \<open>Call\<close>, each optional.\<close>

record PartialCall =
  p_id :: "string option"
  p_clientId :: "string option"
  p_phoneNumber :: "string option"
  p_direction :: "Direction option"
  p_status :: "Status option"
  p_duration :: "int option"
  p_recordingUrl :: "string option"
  p_transcript :: "string option"
  p_summary :: "string option"
  p_sentiment :: "Sentiment option"
  p_confidenceScore :: "rat option"
  p_createdAt :: "int option"
  p_updatedAt :: "int option"

record CallSession =
  s_callId :: string
  s_sessionId :: string
  s_userId :: "string option"
  s_startTime :: int
  s_lastActivity :: int
  s_isActive :: bool

text \<open>
  The terminal statuses of the specification's state machine. The source has no such
  predicate; it is here only to state properties about terminal calls.
\<close>

fun terminal :: "Status \<Rightarrow> bool" where
  "terminal Completed = True"
| "terminal Failed = True"
| "terminal Busy = True"
| "terminal NoAnswer = True"
| "terminal _ = False"

section \<open>Errors and notifications\<close>

text \<open>
  Every \<open>throw\<close> of the services is a value. \<open>NotFound callId\<close> is the \<open>Error\<close> whose
  message says that the call \<open>callId\<close> was not found, thrown by \<open>updateCallStatus\<close>,
  \<open>endCall\<close> and \<open>handleJoinCall\<close>; \<open>DbRowMissing callId\<close> is the error of
  \<open>DatabaseService.updateCall\<close> when the UPDATE touches no row; \<open>ConnectionNotFound\<close> is
  the \<open>Error\<close> "connection not found" of the WebRTC handler; \<open>DbFailure\<close> and
  \<open>RedisFailure\<close> are whatever the clients throw when Postgres or Redis cannot be
  reached; \<open>DbRejected\<close> is the error of Postgres for a statement that breaks a constraint
  or a column type of the table.
\<close>

datatype error =
    NotFound string
  | DbRowMissing string
  | ConnectionNotFound
  | DbFailure
  | RedisFailure
  | DbRejected

text \<open>
  What the operations of \<open>CallManager\<close> below emit through its \<open>EventEmitter\<close>:
  \<open>call:created\<close>, \<open>call:statusUpdated\<close>, \<open>call:ended\<close> and \<open>session:created\<close>.
\<close>

datatype event =
    CallCreated Call
  | CallStatusUpdated Call Status Status
  | CallEnded Call
  | SessionCreated CallSession

section \<open>The state of the call manager and of its collaborators\<close>

text \<open>
  \<open>activeCalls\<close> and \<open>activeSessions\<close> are the two JavaScript \<open>Map\<close>s of the class: an
  association list in insertion order, where \<open>Map.set\<close> is \<^const>\<open>AList.update\<close>
  (replace in place, or append) and \<open>Map.delete\<close> is \<^const>\<open>AList.delete\<close>.

  Redis holds JSON text under the keys \<open>call:<id>\<close> and \<open>session:<id>\<close>. The two prefixes
  never collide, so the model keeps one map for each, keyed by the identifier alone, and
  stores the record for its JSON text (\<open>JSON.parse\<close> of \<open>JSON.stringify\<close> gives every field
  back, dates as their ISO text). With each value goes the expiry it was written with.

  \<open>dbCalls\<close> is the table \<open>calls\<close>, a row for each id, and \<open>dbClients\<close> holds the ids of the
  rows of the table \<open>clients\<close>, which \<open>calls\<close> refers to. \<open>dbUp\<close> and \<open>redisUp\<close> say whether
  the next requests to Postgres and Redis succeed; a request to a collaborator that is
  down throws. An identifier stands for the text of a uuid, which the model does not
  spell out: the samples use short names.

  \<open>uuidv4()\<close> and \<open>new Date()\<close> read the environment: \<open>uuidSource\<close> and \<open>clock\<close> list what
  the successive calls return, \<open>uuidCount\<close> and \<open>clockReads\<close> count the calls made.
  Logging and metrics are fire-and-forget and are left out.
\<close>

record world =
  activeCalls :: "(string \<times> Call) list"
  activeSessions :: "(string \<times> CallSession) list"
  redisCalls :: "string \<rightharpoonup> Call \<times> nat option"
  redisSessions :: "string \<rightharpoonup> CallSession \<times> nat option"
  dbCalls :: "string \<rightharpoonup> Call"
  dbClients :: "string set"
  dbUp :: bool
  redisUp :: bool
  uuidSource :: "nat \<Rightarrow> string"
  uuidCount :: nat
  clock :: "nat \<Rightarrow> int"
  clockReads :: nat
  emitted :: "event list"

definition new_Date :: "world \<Rightarrow> int \<times> world" where
  "new_Date s = (clock s (clockReads s), s\<lparr>clockReads := Suc (clockReads s)\<rparr>)"

definition uuidv4 :: "world \<Rightarrow> string \<times> world" where
  "uuidv4 s = (uuidSource s (uuidCount s), s\<lparr>uuidCount := Suc (uuidCount s)\<rparr>)"

section \<open>RedisService\<close>

text \<open>
  \<open>set(key, value, ttlSeconds?)\<close> uses \<open>setEx\<close> when \<open>ttlSeconds\<close> is truthy and a plain
  \<open>set\<close> otherwise, so a ttl of 0 stores no expiry.
\<close>

definition ttl_of :: "nat \<Rightarrow> nat option" where
  "ttl_of ttlSeconds = (if ttlSeconds = 0 then None else Some ttlSeconds)"

definition redis_set_call :: "string \<Rightarrow> Call \<Rightarrow> nat \<Rightarrow> world \<Rightarrow> (error + unit) \<times> world" where
  "redis_set_call callId v ttlSeconds s =
     (if redisUp s
      then (Inr (), s\<lparr>redisCalls := (redisCalls s)(callId \<mapsto> (v, ttl_of ttlSeconds))\<rparr>)
      else (Inl RedisFailure, s))"

definition redis_get_call :: "string \<Rightarrow> world \<Rightarrow> error + Call option" where
  "redis_get_call callId s =
     (if redisUp s then Inr (map_option fst (redisCalls s callId)) else Inl RedisFailure)"

definition redis_del_call :: "string \<Rightarrow> world \<Rightarrow> (error + unit) \<times> world" where
  "redis_del_call callId s =
     (if redisUp s
      then (Inr (), s\<lparr>redisCalls := (redisCalls s)(callId := None)\<rparr>)
      else (Inl RedisFailure, s))"

definition redis_set_session ::
  "string \<Rightarrow> CallSession \<Rightarrow> nat \<Rightarrow> world \<Rightarrow> (error + unit) \<times> world" where
  "redis_set_session sessionId v ttlSeconds s =
     (if redisUp s
      then (Inr (), s\<lparr>redisSessions := (redisSessions s)(sessionId \<mapsto> (v, ttl_of ttlSeconds))\<rparr>)
      else (Inl RedisFailure, s))"

section \<open>DatabaseService\<close>

text \<open>
  \<open>createCall\<close> writes \<open>call.clientId || null\<close> and the like: a falsy value (the empty
  string, the number 0) is stored as \<open>null\<close>. The names of \<open>Sentiment\<close> are non-empty
  strings, so \<open>call.sentiment || null\<close> keeps the value.
\<close>

definition or_null :: "string option \<Rightarrow> string option" where
  "or_null x = (case x of Some v \<Rightarrow> (if v = [] then None else Some v) | None \<Rightarrow> None)"

definition or_null_num :: "rat option \<Rightarrow> rat option" where
  "or_null_num x = (case x of Some v \<Rightarrow> (if v = 0 then None else Some v) | None \<Rightarrow> None)"

definition row_of :: "Call \<Rightarrow> Call" where
  "row_of call = call\<lparr>
     c_clientId := or_null (c_clientId call),
     c_recordingUrl := or_null (c_recordingUrl call),
     c_transcript := or_null (c_transcript call),
     c_summary := or_null (c_summary call),
     c_confidenceScore := or_null_num (c_confidenceScore call)\<rparr>"

text \<open>
  The table, from the initialisation script of the database:
  \<^verbatim>\<open>
  CREATE TABLE IF NOT EXISTS calls (
      id UUID PRIMARY KEY DEFAULT uuid_generate_v4(),
      client_id UUID REFERENCES clients(id),
      phone_number VARCHAR(20) NOT NULL,
      direction VARCHAR(10) NOT NULL,
      status VARCHAR(50) DEFAULT 'initiated',
      duration INTEGER DEFAULT 0,
      recording_url TEXT, transcript TEXT, summary TEXT,
      sentiment VARCHAR(20),
      confidence_score DECIMAL(3,2),
      created_at TIMESTAMP WITH TIME ZONE DEFAULT NOW(),
      updated_at TIMESTAMP WITH TIME ZONE DEFAULT NOW());
  \<close>
  An INSERT is rejected when the id has a row already (the primary key), when the
  client id is not \<open>null\<close> and names no row of \<open>clients\<close> (the reference), when the phone
  number has more than 20 characters that are not all trailing spaces, when the duration
  is outside the 32-bit integers, or when the confidence score, rounded to two decimal
  places, does not fit three digits. The names of the directions, statuses and
  sentiments fit their columns. A phone number whose characters beyond the twentieth
  are all spaces is cut to 20, and the confidence score is stored rounded, half away from
  zero. Postgres counts characters; the strings of the model are ASCII, a character each.
\<close>

definition varchar20 :: "string \<Rightarrow> string option" where
  "varchar20 v =
     (if length v \<le> 20 then Some v
      else if list_all (\<lambda>c. c = CHR '' '') (drop 20 v) then Some (take 20 v)
      else None)"

definition round2 :: "rat \<Rightarrow> rat" where
  "round2 v =
     (if 0 \<le> v then of_int \<lfloor>v * 100 + 1 / 2\<rfloor> / 100
      else - (of_int \<lfloor>- v * 100 + 1 / 2\<rfloor> / 100))"

definition decimal_3_2 :: "rat option \<Rightarrow> rat option option" where
  "decimal_3_2 x =
     (case x of
        None \<Rightarrow> Some None
      | Some v \<Rightarrow> (if \<bar>round2 v\<bar> < 10 then Some (Some (round2 v)) else None))"

definition int4 :: "int \<Rightarrow> bool" where
  "int4 n \<longleftrightarrow> - 2147483648 \<le> n \<and> n \<le> 2147483647"

definition references_client :: "world \<Rightarrow> string option \<Rightarrow> bool" where
  "references_client s x = (case x of None \<Rightarrow> True | Some clientId \<Rightarrow> clientId \<in> dbClients s)"

definition db_createCall :: "Call \<Rightarrow> world \<Rightarrow> (error + unit) \<times> world" where
  "db_createCall call s =
     (if \<not> dbUp s then (Inl DbFailure, s)
      else
        (let row = row_of call in
         if dbCalls s (c_id row) \<noteq> None \<or> \<not> references_client s (c_clientId row)
            \<or> \<not> int4 (c_duration row)
         then (Inl DbRejected, s)
         else
           (case (varchar20 (c_phoneNumber row), decimal_3_2 (c_confidenceScore row)) of
              (Some phone, Some score) \<Rightarrow>
                (Inr (),
                 s\<lparr>dbCalls := (dbCalls s)(c_id row \<mapsto>
                      row\<lparr>c_phoneNumber := phone, c_confidenceScore := score\<rparr>)\<rparr>)
            | _ \<Rightarrow> (Inl DbRejected, s))))"

definition db_getCall :: "string \<Rightarrow> world \<Rightarrow> error + Call option" where
  "db_getCall callId s = (if dbUp s then Inr (dbCalls s callId) else Inl DbFailure)"

text \<open>
  \<open>updateCall\<close> sets the seven columns whose property is not \<open>undefined\<close> in \<open>updates\<close>,
  and always \<open>updated_at\<close>, to its own reading of the clock. No other property of
  \<open>updates\<close> reaches the row. When no row matches, it throws. (The table has a trigger
  that stamps \<open>updated_at\<close> once more, with the clock of the database; the model has the
  one clock and keeps the reading of the service.)
\<close>

definition set_columns :: "Call \<Rightarrow> PartialCall \<Rightarrow> int \<Rightarrow> Call" where
  "set_columns row updates t = row\<lparr>
     c_status := (case p_status updates of Some v \<Rightarrow> v | None \<Rightarrow> c_status row),
     c_duration := (case p_duration updates of Some v \<Rightarrow> v | None \<Rightarrow> c_duration row),
     c_recordingUrl :=
       (case p_recordingUrl updates of Some v \<Rightarrow> Some v | None \<Rightarrow> c_recordingUrl row),
     c_transcript :=
       (case p_transcript updates of Some v \<Rightarrow> Some v | None \<Rightarrow> c_transcript row),
     c_summary := (case p_summary updates of Some v \<Rightarrow> Some v | None \<Rightarrow> c_summary row),
     c_sentiment :=
       (case p_sentiment updates of Some v \<Rightarrow> Some v | None \<Rightarrow> c_sentiment row),
     c_confidenceScore :=
       (case p_confidenceScore updates of Some v \<Rightarrow> Some v | None \<Rightarrow> c_confidenceScore row),
     c_updatedAt := t\<rparr>"

definition db_updateCall :: "string \<Rightarrow> PartialCall \<Rightarrow> world \<Rightarrow> (error + unit) \<times> world" where
  "db_updateCall callId updates s =
     (if \<not> dbUp s then (Inl DbFailure, s)
      else (case new_Date s of (t, s1) \<Rightarrow>
        (case dbCalls s1 callId of
           None \<Rightarrow> (Inl (DbRowMissing callId), s1)
         | Some row \<Rightarrow>
             (Inr (), s1\<lparr>dbCalls := (dbCalls s1)(callId \<mapsto> set_columns row updates t)\<rparr>))))"

section \<open>CallManager\<close>

text \<open>The object with no property, \<open>{}\<close>, and \<open>{ status }\<close>.\<close>

definition no_fields :: PartialCall where
  "no_fields = \<lparr>p_id = None, p_clientId = None, p_phoneNumber = None, p_direction = None,
     p_status = None, p_duration = None, p_recordingUrl = None, p_transcript = None,
     p_summary = None, p_sentiment = None, p_confidenceScore = None, p_createdAt = None,
     p_updatedAt = None\<rparr>"

definition status_only :: "Status \<Rightarrow> PartialCall" where
  "status_only st = no_fields\<lparr>p_status := Some st\<rparr>"

text \<open>
  \<open>Object.assign(call, data)\<close> and the spread \<open>{ ...call, ...data }\<close>: every property that
  \<open>data\<close> has replaces the one of \<open>call\<close>.
\<close>

definition assign :: "Call \<Rightarrow> PartialCall \<Rightarrow> Call" where
  "assign call d = \<lparr>
     c_id = (case p_id d of Some v \<Rightarrow> v | None \<Rightarrow> c_id call),
     c_clientId = (case p_clientId d of Some v \<Rightarrow> Some v | None \<Rightarrow> c_clientId call),
     c_phoneNumber = (case p_phoneNumber d of Some v \<Rightarrow> v | None \<Rightarrow> c_phoneNumber call),
     c_direction = (case p_direction d of Some v \<Rightarrow> v | None \<Rightarrow> c_direction call),
     c_status = (case p_status d of Some v \<Rightarrow> v | None \<Rightarrow> c_status call),
     c_duration = (case p_duration d of Some v \<Rightarrow> v | None \<Rightarrow> c_duration call),
     c_recordingUrl =
       (case p_recordingUrl d of Some v \<Rightarrow> Some v | None \<Rightarrow> c_recordingUrl call),
     c_transcript = (case p_transcript d of Some v \<Rightarrow> Some v | None \<Rightarrow> c_transcript call),
     c_summary = (case p_summary d of Some v \<Rightarrow> Some v | None \<Rightarrow> c_summary call),
     c_sentiment = (case p_sentiment d of Some v \<Rightarrow> Some v | None \<Rightarrow> c_sentiment call),
     c_confidenceScore =
       (case p_confidenceScore d of Some v \<Rightarrow> Some v | None \<Rightarrow> c_confidenceScore call),
     c_createdAt = (case p_createdAt d of Some v \<Rightarrow> v | None \<Rightarrow> c_createdAt call),
     c_updatedAt = (case p_updatedAt d of Some v \<Rightarrow> v | None \<Rightarrow> c_updatedAt call)\<rparr>"

text \<open>
  \<open>getCall\<close>: the \<open>Map\<close> of active calls, then Redis, then the database. A hit in Redis
  is put into the \<open>Map\<close>; a hit in the database is written to Redis (3600 s) and put
  into the \<open>Map\<close>. \<open>Inr None\<close> is the \<open>null\<close> the source returns. The source tests
  \<open>if (callData)\<close>; the JSON text of a call is never the empty string, so the test is
  whether the key is there.
\<close>

definition getCall :: "string \<Rightarrow> world \<Rightarrow> (error + Call option) \<times> world" where
  "getCall callId s =
     (case map_of (activeCalls s) callId of
        Some call \<Rightarrow> (Inr (Some call), s)
      | None \<Rightarrow>
          (case redis_get_call callId s of
             Inl e \<Rightarrow> (Inl e, s)
           | Inr (Some call) \<Rightarrow>
               (Inr (Some call), s\<lparr>activeCalls := AList.update callId call (activeCalls s)\<rparr>)
           | Inr None \<Rightarrow>
               (case db_getCall callId s of
                  Inl e \<Rightarrow> (Inl e, s)
                | Inr None \<Rightarrow> (Inr None, s)
                | Inr (Some call) \<Rightarrow>
                    (case redis_set_call callId call 3600 s of
                       (Inl e, s1) \<Rightarrow> (Inl e, s1)
                     | (Inr _, s1) \<Rightarrow>
                         (Inr (Some call),
                          s1\<lparr>activeCalls := AList.update callId call (activeCalls s1)\<rparr>)))))"

text \<open>
  \<open>createCall\<close>. The object literal is evaluated in the order written: \<open>uuidv4()\<close>, then
  \<open>new Date()\<close> for \<open>createdAt\<close>, then \<open>new Date()\<close> again for \<open>updatedAt\<close>; the spread
  \<open>...callData\<close> comes last and overrides. \<open>callData.phoneNumber!\<close> and
  \<open>callData.direction!\<close> are non-null assertions, which nothing checks at run time: for a
  draft without one of them the object has \<open>undefined\<close> there, the INSERT sends \<open>null\<close> for
  it, and the column, which is \<open>NOT NULL\<close>, rejects it.
\<close>

definition createCall :: "PartialCall \<Rightarrow> world \<Rightarrow> (error + Call) \<times> world" where
  "createCall callData s =
     (case uuidv4 s of (u, s1) \<Rightarrow>
     (case new_Date s1 of (t1, s2) \<Rightarrow>
     (case new_Date s2 of (t2, s3) \<Rightarrow>
       (case (p_phoneNumber callData, p_direction callData) of
          (Some pn, Some dir) \<Rightarrow>
            (let call = assign \<lparr>c_id = u, c_clientId = None, c_phoneNumber = pn,
                   c_direction = dir, c_status = Initiated, c_duration = 0,
                   c_recordingUrl = None, c_transcript = None, c_summary = None,
                   c_sentiment = None, c_confidenceScore = None,
                   c_createdAt = t1, c_updatedAt = t2\<rparr> callData
             in (case db_createCall call s3 of
                   (Inl e, s4) \<Rightarrow> (Inl e, s4)
                 | (Inr _, s4) \<Rightarrow>
                     (case redis_set_call (c_id call) call 3600 s4 of
                        (Inl e, s5) \<Rightarrow> (Inl e, s5)
                      | (Inr _, s5) \<Rightarrow>
                          (Inr call,
                           s5\<lparr>activeCalls := AList.update (c_id call) call (activeCalls s5),
                              emitted := emitted s5 @ [CallCreated call]\<rparr>))))
        | _ \<Rightarrow> (if dbUp s3 then (Inl DbRejected, s3) else (Inl DbFailure, s3))))))"

text \<open>
  \<open>updateCallStatus\<close>. The object that \<open>getCall\<close> returns is the one the \<open>Map\<close> holds
  under \<open>callId\<close>, so the two assignments \<open>call.status = status\<close> and
  \<open>call.updatedAt = new Date()\<close> change the entry of the \<open>Map\<close> at once, before the database
  is asked; an error thrown later leaves them in place. The source's return type admits
  \<open>null\<close>, which no path returns.
\<close>

definition updateCallStatus :: "string \<Rightarrow> Status \<Rightarrow> world \<Rightarrow> (error + Call) \<times> world" where
  "updateCallStatus callId st s =
     (case getCall callId s of
        (Inl e, s1) \<Rightarrow> (Inl e, s1)
      | (Inr None, s1) \<Rightarrow> (Inl (NotFound callId), s1)
      | (Inr (Some call), s1) \<Rightarrow>
          (case new_Date s1 of (t, s2) \<Rightarrow>
            (let oldStatus = c_status call;
                 call' = call\<lparr>c_status := st, c_updatedAt := t\<rparr>;
                 s3 = s2\<lparr>activeCalls := AList.update callId call' (activeCalls s2)\<rparr>
             in (case db_updateCall callId (status_only st) s3 of
                   (Inl e, s4) \<Rightarrow> (Inl e, s4)
                 | (Inr _, s4) \<Rightarrow>
                     (case redis_set_call callId call' 3600 s4 of
                        (Inl e, s5) \<Rightarrow> (Inl e, s5)
                      | (Inr _, s5) \<Rightarrow>
                          (Inr call',
                           s5\<lparr>activeCalls := AList.update callId call' (activeCalls s5),
                              emitted := emitted s5 @ [CallStatusUpdated call' oldStatus st]\<rparr>))))))"

text \<open>
  \<open>endCall\<close>. \<open>Object.assign(call, endData)\<close>, then \<open>status = 'completed'\<close> and a fresh
  \<open>updatedAt\<close>, all on the object the \<open>Map\<close> holds; the database gets \<open>endData\<close> as it
  came; then the Redis key and the \<open>Map\<close> entry are deleted.
\<close>

definition endCall :: "string \<Rightarrow> PartialCall \<Rightarrow> world \<Rightarrow> (error + Call) \<times> world" where
  "endCall callId endData s =
     (case getCall callId s of
        (Inl e, s1) \<Rightarrow> (Inl e, s1)
      | (Inr None, s1) \<Rightarrow> (Inl (NotFound callId), s1)
      | (Inr (Some call), s1) \<Rightarrow>
          (case new_Date s1 of (t, s2) \<Rightarrow>
            (let call' = (assign call endData)\<lparr>c_status := Completed, c_updatedAt := t\<rparr>;
                 s3 = s2\<lparr>activeCalls := AList.update callId call' (activeCalls s2)\<rparr>
             in (case db_updateCall callId endData s3 of
                   (Inl e, s4) \<Rightarrow> (Inl e, s4)
                 | (Inr _, s4) \<Rightarrow>
                     (case redis_del_call callId s4 of
                        (Inl e, s5) \<Rightarrow> (Inl e, s5)
                      | (Inr _, s5) \<Rightarrow>
                          (Inr call',
                           s5\<lparr>activeCalls := AList.delete callId (activeCalls s5),
                              emitted := emitted s5 @ [CallEnded call']\<rparr>))))))"

text \<open>
  \<open>createCallSession\<close>: the session is built from its arguments, a fresh uuid and two
  readings of the clock, written to Redis under \<open>session:<sessionId>\<close> for 3600 s, and put
  into the \<open>Map\<close> of active sessions.
\<close>

definition createCallSession ::
  "string \<Rightarrow> string option \<Rightarrow> world \<Rightarrow> (error + CallSession) \<times> world" where
  "createCallSession callId userId s =
     (case uuidv4 s of (u, s1) \<Rightarrow>
     (case new_Date s1 of (t1, s2) \<Rightarrow>
     (case new_Date s2 of (t2, s3) \<Rightarrow>
       (let session = \<lparr>s_callId = callId, s_sessionId = u, s_userId = userId,
              s_startTime = t1, s_lastActivity = t2, s_isActive = True\<rparr>
        in (case redis_set_session (s_sessionId session) session 3600 s3 of
              (Inl e, s4) \<Rightarrow> (Inl e, s4)
            | (Inr _, s4) \<Rightarrow>
                (Inr session,
                 s4\<lparr>activeSessions :=
                      AList.update (s_sessionId session) session (activeSessions s4),
                    emitted := emitted s4 @ [SessionCreated session]\<rparr>))))))"

definition getActiveCalls :: "world \<Rightarrow> Call list" where
  "getActiveCalls s = map snd (activeCalls s)"

definition getActiveSessions :: "world \<Rightarrow> CallSession list" where
  "getActiveSessions s = map snd (activeSessions s)"

text \<open>
  The drafts that reach \<open>createCall\<close>. The request schema \<open>schemas.createCall\<close> of the HTTP
  route requires \<open>phoneNumber\<close>, a string that matches \<open>/^\+?[1-9]\d{1,14}$/\<close>, and
  \<open>direction\<close>, allows \<open>clientId\<close>, a uuid, and allows no other key; \<open>SIPService\<close> and
  \<open>SIPHandler\<close> pass \<open>phoneNumber\<close>, \<open>direction\<close> and \<open>status: 'initiated'\<close>. Of a uuid the
  model keeps that it is not the empty string.
\<close>

fun strip_plus :: "string \<Rightarrow> string" where
  "strip_plus [] = []"
| "strip_plus (c # cs) = (if c = CHR ''+'' then cs else c # cs)"

fun subscriber :: "string \<Rightarrow> bool" where
  "subscriber [] = False"
| "subscriber (c # cs) =
     (c \<in> set ''123456789'' \<and> 1 \<le> length cs \<and> length cs \<le> 14
      \<and> list_all (\<lambda>d. d \<in> set ''0123456789'') cs)"

definition phone_pattern :: "string \<Rightarrow> bool" where
  "phone_pattern v = subscriber (strip_plus v)"

definition valid_draft :: "PartialCall \<Rightarrow> bool" where
  "valid_draft d \<longleftrightarrow>
     (case p_phoneNumber d of None \<Rightarrow> False | Some v \<Rightarrow> phone_pattern v) \<and>
     p_direction d \<noteq> None \<and> p_clientId d \<noteq> Some [] \<and> p_id d = None \<and>
     (p_status d = None \<or> p_status d = Some Initiated) \<and>
     p_duration d = None \<and> p_recordingUrl d = None \<and> p_transcript d = None \<and>
     p_summary d = None \<and> p_sentiment d = None \<and> p_confidenceScore d = None \<and>
     p_createdAt d = None \<and> p_updatedAt d = None"

text \<open>
  The uuid library is not among the sources. Its contract is that identifiers do not
  repeat: what \<open>uuidv4\<close> has yet to return is pairwise different and names no call that
  is in the table, in Redis or in the \<open>Map\<close>.
\<close>

definition uuid_fresh :: "world \<Rightarrow> bool" where
  "uuid_fresh s \<longleftrightarrow>
     (\<forall>n m. uuidCount s \<le> n \<and> n < m \<longrightarrow> uuidSource s n \<noteq> uuidSource s m) \<and>
     (\<forall>n. uuidCount s \<le> n \<longrightarrow>
        dbCalls s (uuidSource s n) = None \<and> redisCalls s (uuidSource s n) = None \<and>
        map_of (activeCalls s) (uuidSource s n) = None)"

section \<open>WebRTCHandler\<close>

text \<open>
  A socket is known by its \<open>socket.id\<close>. The Socket.IO server is an external library; the
  model keeps what the handler uses of it, with the semantics of its documentation:
  \<open>rooms\<close> gives the sockets that joined a room, \<open>socket.join\<close> and \<open>socket.leave\<close> add the
  socket to a room and remove it, \<open>socket.emit\<close> sends to the socket itself, and
  \<open>socket.to(room).emit\<close> sends to every socket in the room except the sender. \<open>sent\<close>
  lists the messages in the order sent, each with its recipients.

  The handler reads the clock of the same process, so \<open>new Date()\<close> is a reading of the
  manager's clock. The readings \<open>Date.now()\<close> that only feed metrics are not counted.
\<close>

datatype ConnStatus = Connecting | Connected | Disconnected | ConnFailed

record WebRTCConnection =
  w_id :: string
  w_callId :: string
  w_socketId :: string
  w_userId :: "string option"
  w_status :: ConnStatus
  w_startTime :: int
  w_endTime :: "int option"
  w_duration :: "int option"
  w_localSDP :: "string option"
  w_remoteSDP :: "string option"
  w_iceCandidates :: "string list"

text \<open>
  The payloads: \<open>{ callId, connectionId }\<close> of \<open>joined-call\<close>, \<open>{ callId, sdp, from }\<close> of
  \<open>offer\<close> and \<open>answer\<close>, \<open>{ callId, candidate, from }\<close> of \<open>ice-candidate\<close>.
\<close>

datatype payload =
    JoinedCall string string
  | SdpFrom string string string
  | CandidateFrom string string string

datatype message = Message (recipients: "string set") (event_name: string) (body: payload)

datatype handler_event =
    ConnectionJoined WebRTCConnection Call
  | ConnectionLeft WebRTCConnection
  | WebrtcOffer WebRTCConnection string
  | WebrtcAnswer WebRTCConnection string
  | WebrtcIceCandidate WebRTCConnection string

record webrtc =
  callManager :: world
  activeConnections :: "string \<rightharpoonup> WebRTCConnection"
  socketToConnection :: "string \<rightharpoonup> string"
  rooms :: "string \<Rightarrow> string set"
  sent :: "message list"
  handlerEmitted :: "handler_event list"

definition room_of :: "string \<Rightarrow> string" where
  "room_of callId = ''call-'' @ callId"

text \<open>
  \<open>handleJoinCall\<close>: the call must exist; then a connection record named
  \<open>`${callId}-${socket.id}`\<close> is stored, the socket is mapped to it and joins the room of
  the call. The record is stored as \<open>connecting\<close> and at once again as \<open>connected\<close>.
\<close>

definition handleJoinCall ::
  "string \<Rightarrow> string \<Rightarrow> string option \<Rightarrow> webrtc \<Rightarrow> (error + unit) \<times> webrtc" where
  "handleJoinCall socket callId userId w =
     (case getCall callId (callManager w) of
        (Inl e, m1) \<Rightarrow> (Inl e, w\<lparr>callManager := m1\<rparr>)
      | (Inr None, m1) \<Rightarrow> (Inl (NotFound callId), w\<lparr>callManager := m1\<rparr>)
      | (Inr (Some call), m1) \<Rightarrow>
          (case new_Date m1 of (t, m2) \<Rightarrow>
            (let connection = \<lparr>w_id = callId @ ''-'' @ socket, w_callId = callId,
                   w_socketId = socket, w_userId = userId, w_status = Connecting,
                   w_startTime = t, w_endTime = None, w_duration = None,
                   w_localSDP = None, w_remoteSDP = None, w_iceCandidates = []\<rparr>;
                 connected = connection\<lparr>w_status := Connected\<rparr>
             in (Inr (),
                 w\<lparr>callManager := m2,
                   activeConnections :=
                     ((activeConnections w)(w_id connection \<mapsto> connection))
                       (w_id connection \<mapsto> connected),
                   socketToConnection := (socketToConnection w)(socket \<mapsto> w_id connection),
                   rooms := (rooms w)(room_of callId := insert socket (rooms w (room_of callId))),
                   sent := sent w @ [Message {socket} ''joined-call''
                                       (JoinedCall callId (w_id connection))],
                   handlerEmitted := handlerEmitted w @ [ConnectionJoined connected call]\<rparr>))))"

text \<open>
  \<open>handleLeaveCall\<close>: nothing happens for a socket without a connection; otherwise the
  socket leaves the room of the connection's call and both map entries are deleted.
  Nothing in the body can throw, so the result is the state alone.
\<close>

definition handleLeaveCall :: "string \<Rightarrow> webrtc \<Rightarrow> webrtc" where
  "handleLeaveCall socket w =
     (case socketToConnection w socket of
        None \<Rightarrow> w
      | Some connectionId \<Rightarrow>
          (case activeConnections w connectionId of
             None \<Rightarrow> w
           | Some connection \<Rightarrow>
               (case new_Date (callManager w) of (t, m1) \<Rightarrow>
                 (let left = connection\<lparr>w_status := Disconnected, w_endTime := Some t,
                        w_duration := Some (t - w_startTime connection)\<rparr>
                  in w\<lparr>callManager := m1,
                       rooms := (rooms w)(room_of (w_callId connection) :=
                                  rooms w (room_of (w_callId connection)) - {socket}),
                       activeConnections := (activeConnections w)(connectionId := None),
                       socketToConnection := (socketToConnection w)(socket := None),
                       handlerEmitted := handlerEmitted w @ [ConnectionLeft left]\<rparr>))))"

text \<open>
  \<open>handleOffer\<close> and \<open>handleAnswer\<close> throw for a socket without a connection; otherwise they
  store the SDP on the connection and relay it to the room named by the \<open>callId\<close> of the
  message. \<open>handleIceCandidate\<close> returns silently for a socket without a connection.
\<close>

definition handleOffer :: "string \<Rightarrow> string \<Rightarrow> string \<Rightarrow> webrtc \<Rightarrow> (error + unit) \<times> webrtc" where
  "handleOffer socket callId sdp w =
     (case socketToConnection w socket of
        None \<Rightarrow> (Inl ConnectionNotFound, w)
      | Some connectionId \<Rightarrow>
          (case activeConnections w connectionId of
             None \<Rightarrow> (Inl ConnectionNotFound, w)
           | Some connection \<Rightarrow>
               (let connection' = connection\<lparr>w_localSDP := Some sdp\<rparr>
                in (Inr (),
                    w\<lparr>activeConnections := (activeConnections w)(connectionId \<mapsto> connection'),
                      sent := sent w @ [Message (rooms w (room_of callId) - {socket}) ''offer''
                                          (SdpFrom callId sdp socket)],
                      handlerEmitted := handlerEmitted w @ [WebrtcOffer connection' sdp]\<rparr>))))"

definition handleAnswer :: "string \<Rightarrow> string \<Rightarrow> string \<Rightarrow> webrtc \<Rightarrow> (error + unit) \<times> webrtc" where
  "handleAnswer socket callId sdp w =
     (case socketToConnection w socket of
        None \<Rightarrow> (Inl ConnectionNotFound, w)
      | Some connectionId \<Rightarrow>
          (case activeConnections w connectionId of
             None \<Rightarrow> (Inl ConnectionNotFound, w)
           | Some connection \<Rightarrow>
               (let connection' = connection\<lparr>w_remoteSDP := Some sdp\<rparr>
                in (Inr (),
                    w\<lparr>activeConnections := (activeConnections w)(connectionId \<mapsto> connection'),
                      sent := sent w @ [Message (rooms w (room_of callId) - {socket}) ''answer''
                                          (SdpFrom callId sdp socket)],
                      handlerEmitted := handlerEmitted w @ [WebrtcAnswer connection' sdp]\<rparr>))))"

definition handleIceCandidate :: "string \<Rightarrow> string \<Rightarrow> string \<Rightarrow> webrtc \<Rightarrow> webrtc" where
  "handleIceCandidate socket callId candidate w =
     (case socketToConnection w socket of
        None \<Rightarrow> w
      | Some connectionId \<Rightarrow>
          (case activeConnections w connectionId of
             None \<Rightarrow> w
           | Some connection \<Rightarrow>
               (let connection' =
                      connection\<lparr>w_iceCandidates := w_iceCandidates connection @ [candidate]\<rparr>
                in w\<lparr>activeConnections := (activeConnections w)(connectionId \<mapsto> connection'),
                     sent := sent w @ [Message (rooms w (room_of callId) - {socket})
                                         ''ice-candidate'' (CandidateFrom callId candidate socket)],
                     handlerEmitted :=
                       handlerEmitted w @ [WebrtcIceCandidate connection' candidate]\<rparr>)))"

section \<open>SIPService\<close>










section \<open>Sample states\<close>

text \<open>
  A manager that has just started, with both collaborators up: nothing in the maps, in
  Redis or in the table \<open>calls\<close>, and one row, \<open>client\<close>, in the table \<open>clients\<close>. Its uuids are \<open>id\<close>, \<open>id*\<close>, \<open>id**\<close> and so on, and its clock
  advances by one millisecond at every reading, from 1000.
\<close>

definition world0 :: world where
  "world0 = \<lparr>activeCalls = [], activeSessions = [], redisCalls = Map.empty,
     redisSessions = Map.empty, dbCalls = Map.empty, dbClients = {''client''},
     dbUp = True, redisUp = True,
     uuidSource = (\<lambda>n. ''id'' @ replicate n CHR ''*''), uuidCount = 0,
     clock = (\<lambda>n. 1000 + int n), clockReads = 0, emitted = []\<rparr>"

definition draft1 :: PartialCall where
  "draft1 = no_fields\<lparr>p_phoneNumber := Some ''+79990000001'', p_direction := Some Incoming\<rparr>"

definition draft2 :: PartialCall where
  "draft2 = no_fields\<lparr>p_phoneNumber := Some ''+79990000002'', p_direction := Some Outgoing\<rparr>"

text \<open>The call that \<open>createCall draft1\<close> makes in \<open>world0\<close>, and the state it leaves.\<close>

definition created1 :: Call where
  "created1 = \<lparr>c_id = ''id'', c_clientId = None, c_phoneNumber = ''+79990000001'',
     c_direction = Incoming, c_status = Initiated, c_duration = 0, c_recordingUrl = None,
     c_transcript = None, c_summary = None, c_sentiment = None, c_confidenceScore = None,
     c_createdAt = 1000, c_updatedAt = 1001\<rparr>"

definition world1 :: world where
  "world1 = world0\<lparr>activeCalls := [(''id'', created1)],
     redisCalls := [''id'' \<mapsto> (created1, Some 3600)], dbCalls := [''id'' \<mapsto> created1],
     uuidCount := Suc 0, clockReads := Suc (Suc 0), emitted := [CallCreated created1]\<rparr>"

text \<open>
  The session that \<open>createCallSession\<close> makes in \<open>world0\<close> for the identifier \<open>ghost\<close>, which
  names no call there.
\<close>

definition ghost_session :: CallSession where
  "ghost_session = \<lparr>s_callId = ''ghost'', s_sessionId = ''id'', s_userId = None,
     s_startTime = 1000, s_lastActivity = 1001, s_isActive = True\<rparr>"

text \<open>
  \<open>world2\<close> is \<open>world1\<close> after \<open>updateCallStatus ''id'' Completed\<close>: the call is terminal in
  the \<open>Map\<close>, in Redis and in the table.
\<close>

definition done1 :: Call where
  "done1 = created1\<lparr>c_status := Completed, c_updatedAt := 1002\<rparr>"

definition world2 :: world where
  "world2 = world1\<lparr>activeCalls := [(''id'', done1)],
     redisCalls := [''id'' \<mapsto> (done1, Some 3600)],
     dbCalls := [''id'' \<mapsto> created1\<lparr>c_status := Completed, c_updatedAt := 1003\<rparr>],
     clockReads := Suc (Suc (Suc (Suc 0))),
     emitted := [CallCreated created1, CallStatusUpdated done1 Initiated Completed]\<rparr>"

text \<open>
  A signaling handler that has just started, on a manager with the two calls \<open>id\<close> and
  \<open>id*\<close>; then socket \<open>S1\<close> joins the call \<open>id\<close> (\<open>web1\<close>); then either the same socket joins
  the call \<open>id*\<close> as well (\<open>web2\<close>), or a second socket \<open>S2\<close> joins the call \<open>id\<close> (\<open>web12\<close>).
\<close>

definition world12 :: world where
  "world12 = snd (createCall draft2 world1)"

definition web0 :: webrtc where
  "web0 = \<lparr>callManager = world12, activeConnections = Map.empty,
     socketToConnection = Map.empty, rooms = (\<lambda>room. {}), sent = [], handlerEmitted = []\<rparr>"

definition web1 :: webrtc where
  "web1 = snd (handleJoinCall ''S1'' ''id'' None web0)"

definition web2 :: webrtc where
  "web2 = snd (handleJoinCall ''S1'' ''id*'' None web1)"

definition web12 :: webrtc where
  "web12 = snd (handleJoinCall ''S2'' ''id'' None web1)"





text \<open>
  \<open>web123\<close> is \<open>web12\<close> after a third socket \<open>S3\<close> has joined the other call, \<open>id*\<close>.
\<close>

definition web123 :: webrtc where
  "web123 = snd (handleJoinCall ''S3'' ''id*'' None web12)"

text \<open>
  What the route \<open>POST /calls/:id/end\<close> passes to \<open>endCall\<close> for a call of 42 s: its schema
  \<open>schemas.endCall\<close> requires \<open>duration\<close> and has no key \<open>status\<close>. And two drafts that the
  schema \<open>schemas.createCall\<close> accepts, for a client that has no row and for one that has.
\<close>

definition end42 :: PartialCall where
  "end42 = no_fields\<lparr>p_duration := Some 42\<rparr>"

definition draft3 :: PartialCall where
  "draft3 = draft1\<lparr>p_clientId := Some ''nobody''\<rparr>"

definition draft4 :: PartialCall where
  "draft4 = draft1\<lparr>p_clientId := Some ''client''\<rparr>"


section \<open>Auxiliary facts\<close>

lemmas mgr_defs = getCall_def redis_get_call_def db_getCall_def redis_set_call_def
  redis_del_call_def db_updateCall_def db_createCall_def new_Date_def uuidv4_def ttl_of_def
  references_client_def int4_def varchar20_def decimal_3_2_def

lemmas sample_defs = world0_def world1_def created1_def draft1_def draft2_def no_fields_def

text \<open>What \<open>getCall\<close> leaves behind when it finds a call.\<close>

lemma getCall_found_state:
  assumes "getCall callId s = (Inr (Some c), s1)"
  shows "map_of (activeCalls s1) callId = Some c"
    and "AList.delete callId (activeCalls s1) = AList.delete callId (activeCalls s)"
    and "dbCalls s1 = dbCalls s" and "dbUp s1 = dbUp s" and "redisUp s1 = redisUp s"
    and "clock s1 = clock s" and "clockReads s1 = clockReads s"
    and "emitted s1 = emitted s" and "activeSessions s1 = activeSessions s"
    and "redisSessions s1 = redisSessions s"
    and "uuidSource s1 = uuidSource s" and "uuidCount s1 = uuidCount s"
  using assms
  by (auto simp: mgr_defs AList.update_conv' AList.delete_update_same
      split: option.splits sum.splits prod.splits if_splits)

lemma getCall_finds:
  assumes "dbCalls s callId = Some row" "dbUp s" "redisUp s"
  shows "\<exists>c s1. getCall callId s = (Inr (Some c), s1)"
  using assms
  by (auto simp: mgr_defs split: option.splits sum.splits prod.splits if_splits)

text \<open>One run of \<open>endCall\<close> on a call that has its row, with both collaborators up.\<close>

lemma endCall_run:
  assumes "dbCalls s callId = Some row" "dbUp s" "redisUp s"
  shows "\<exists>c s1 s'. getCall callId s = (Inr (Some c), s1)
     \<and> endCall callId endData s =
         (Inr ((assign c endData)\<lparr>c_status := Completed, c_updatedAt := clock s (clockReads s)\<rparr>), s')
     \<and> dbCalls s' = (dbCalls s)(callId \<mapsto> set_columns row endData (clock s (Suc (clockReads s))))
     \<and> redisCalls s' callId = None
     \<and> activeCalls s' = AList.delete callId (activeCalls s)
     \<and> emitted s' = emitted s @
          [CallEnded ((assign c endData)\<lparr>c_status := Completed, c_updatedAt := clock s (clockReads s)\<rparr>)]"
proof -
  from getCall_finds [OF assms] obtain c s1 where g: "getCall callId s = (Inr (Some c), s1)"
    by blast
  note st = getCall_found_state [OF g]
  show ?thesis
    using assms st
    by (simp add: g endCall_def Let_def db_updateCall_def new_Date_def redis_del_call_def
        AList.delete_update_same)
qed

lemma delete_keeps_keyed:
  assumes "\<forall>(k, v) \<in> set al. c_id v = k"
  shows "callId \<notin> c_id ` snd ` set (AList.delete callId al)"
  using assms by (auto simp: AList.delete_eq)

lemma createCall_world0: "createCall draft1 world0 = (Inr created1, world1)"
  by (simp add: createCall_def mgr_defs sample_defs assign_def row_of_def or_null_def
      or_null_num_def Let_def)

lemma update_world1: "updateCallStatus ''id'' Completed world1 = (Inr done1, world2)"
  by (simp add: updateCallStatus_def mgr_defs sample_defs world2_def done1_def Let_def
      status_only_def set_columns_def)

section \<open>Ending a call\<close>

text \<open>
  What \<open>endCall\<close> does for a call that has its row in the table, with Postgres and Redis
  up. The call it returns is the call \<open>getCall\<close> found with the fields of \<open>endData\<close> merged
  in, the status \<open>completed\<close> and a fresh \<open>updatedAt\<close>. The row gets the columns of
  \<open>endData\<close> and a fresh \<open>updated_at\<close>, and no more than that; the Redis key and the entry
  of the \<open>Map\<close> are gone, so that, the \<open>Map\<close> being keyed by the calls' ids, no call with
  this id is in \<open>getActiveCalls\<close>; and \<open>call:ended\<close> is emitted last, with the returned call.
\<close>

lemma endCall_effects:
  assumes "dbCalls s callId = Some row" "dbUp s" "redisUp s"
  shows "\<exists>c s1 c' s'. getCall callId s = (Inr (Some c), s1)
     \<and> endCall callId endData s = (Inr c', s')
     \<and> c' = (assign c endData)\<lparr>c_status := Completed, c_updatedAt := clock s (clockReads s)\<rparr>
     \<and> terminal (c_status c')
     \<and> dbCalls s' callId = Some (set_columns row endData (clock s (Suc (clockReads s))))
     \<and> redisCalls s' callId = None
     \<and> map_of (activeCalls s') callId = None
     \<and> activeCalls s' = AList.delete callId (activeCalls s)
     \<and> ((\<forall>(k, v) \<in> set (activeCalls s). c_id v = k) \<longrightarrow>
          callId \<notin> c_id ` set (getActiveCalls s'))
     \<and> emitted s' = emitted s @ [CallEnded c']"
proof -
  from endCall_run [OF assms, of endData] obtain c s1 s' where
    r: "getCall callId s = (Inr (Some c), s1)"
       "endCall callId endData s =
         (Inr ((assign c endData)\<lparr>c_status := Completed, c_updatedAt := clock s (clockReads s)\<rparr>), s')"
       "dbCalls s' = (dbCalls s)(callId \<mapsto> set_columns row endData (clock s (Suc (clockReads s))))"
       "redisCalls s' callId = None"
       "activeCalls s' = AList.delete callId (activeCalls s)"
       "emitted s' = emitted s @
          [CallEnded ((assign c endData)\<lparr>c_status := Completed, c_updatedAt := clock s (clockReads s)\<rparr>)]"
    by blast
  have "map_of (activeCalls s') callId = None"
    by (simp add: r(5) AList.delete_conv')
  moreover have "(\<forall>(k, v) \<in> set (activeCalls s). c_id v = k) \<longrightarrow>
      callId \<notin> c_id ` set (getActiveCalls s')"
    using delete_keeps_keyed [of "activeCalls s" callId]
    by (simp add: getActiveCalls_def r(5))
  ultimately show ?thesis
    using r by simp
qed

text \<open>
  C6 asks that \<open>endCall\<close> force the status to a terminal value and persist the update.
  \<open>endCall\<close> sets \<open>call.status = 'completed'\<close> on the object in memory and then hands
  \<open>endData\<close>, not the call, to \<open>DatabaseService.updateCall\<close>, so the forced status reaches the
  row only when \<open>endData\<close> happens to carry one. The route \<open>POST /calls/:id/end\<close> cannot send
  one. In \<open>world1\<close>, where the call \<open>id\<close> is \<open>initiated\<close>, \<open>endCall\<close> with the route's \<open>endData\<close>
  returns the call as \<open>completed\<close> and leaves the row \<open>initiated\<close>, which is not terminal;
  the entry of the \<open>Map\<close> and the Redis key being gone, the next \<open>getCall\<close> reads the row and
  returns the ended call as \<open>initiated\<close>.
\<close>

theorem endCall_row_stays_open:
  "fst (endCall ''id'' end42 world1)
     = Inr (created1\<lparr>c_status := Completed, c_duration := 42, c_updatedAt := 1002\<rparr>)
   \<and> dbCalls (snd (endCall ''id'' end42 world1)) ''id''
     = Some (created1\<lparr>c_duration := 42, c_updatedAt := 1003\<rparr>)
   \<and> c_status (created1\<lparr>c_duration := 42, c_updatedAt := 1003\<rparr>) = Initiated
   \<and> \<not> terminal Initiated
   \<and> redisCalls (snd (endCall ''id'' end42 world1)) ''id'' = None
   \<and> activeCalls (snd (endCall ''id'' end42 world1)) = []
   \<and> fst (getCall ''id'' (snd (endCall ''id'' end42 world1)))
     = Inr (Some (created1\<lparr>c_duration := 42, c_updatedAt := 1003\<rparr>))"
  by (simp add: endCall_def mgr_defs sample_defs end42_def assign_def set_columns_def Let_def)

section \<open>Reading a call\<close>

text \<open>
  C4: \<open>getCall\<close> asks the \<open>Map\<close> of active calls, then Redis, then the table. A hit
  in the \<open>Map\<close> is the answer and nothing changes, whatever Redis and the table hold and
  even when both are down. On a miss in the \<open>Map\<close>, a hit in Redis is the answer, whatever
  the table holds and even when Postgres is down, and it is put into the \<open>Map\<close>. On a
  miss in both, a row of the table is the answer, and it is written to Redis (for 3600 s)
  and put into the \<open>Map\<close>. The answer is \<open>null\<close> only when all three have nothing for
  the id, and it is \<open>null\<close>, with nothing changed, whenever all three have nothing and the
  collaborators are up.
\<close>

theorem getCall_tiers:
  "(map_of (activeCalls s) callId = Some c \<longrightarrow> getCall callId s = (Inr (Some c), s))
 \<and> (map_of (activeCalls s) callId = None \<and> redisUp s \<and> redisCalls s callId = Some (c, ttl) \<longrightarrow>
      fst (getCall callId s) = Inr (Some c)
      \<and> map_of (activeCalls (snd (getCall callId s))) callId = Some c
      \<and> redisCalls (snd (getCall callId s)) = redisCalls s
      \<and> dbCalls (snd (getCall callId s)) = dbCalls s)
 \<and> (map_of (activeCalls s) callId = None \<and> redisUp s \<and> redisCalls s callId = None
      \<and> dbUp s \<and> dbCalls s callId = Some c \<longrightarrow>
      fst (getCall callId s) = Inr (Some c)
      \<and> map_of (activeCalls (snd (getCall callId s))) callId = Some c
      \<and> redisCalls (snd (getCall callId s)) = (redisCalls s)(callId \<mapsto> (c, Some 3600))
      \<and> dbCalls (snd (getCall callId s)) = dbCalls s)
 \<and> (fst (getCall callId s) = Inr None \<longrightarrow>
      map_of (activeCalls s) callId = None \<and> redisCalls s callId = None \<and> dbCalls s callId = None)
 \<and> (map_of (activeCalls s) callId = None \<and> redisCalls s callId = None \<and> dbCalls s callId = None
      \<and> redisUp s \<and> dbUp s \<longrightarrow> getCall callId s = (Inr None, s))"
  by (auto simp: mgr_defs AList.update_conv' split: option.splits sum.splits prod.splits if_splits)

theorem getCall_tiers_witness:
  "getCall ''id'' (world1\<lparr>redisUp := False, dbUp := False\<rparr>)
     = (Inr (Some created1), world1\<lparr>redisUp := False, dbUp := False\<rparr>)
 \<and> fst (getCall ''id'' (world1\<lparr>activeCalls := [], dbUp := False\<rparr>)) = Inr (Some created1)
 \<and> activeCalls (snd (getCall ''id'' (world1\<lparr>activeCalls := [], dbUp := False\<rparr>)))
     = [(''id'', created1)]
 \<and> fst (getCall ''id'' (world1\<lparr>activeCalls := [], redisCalls := Map.empty\<rparr>))
     = Inr (Some created1)
 \<and> redisCalls (snd (getCall ''id'' (world1\<lparr>activeCalls := [], redisCalls := Map.empty\<rparr>))) ''id''
     = Some (created1, Some 3600)
 \<and> activeCalls (snd (getCall ''id'' (world1\<lparr>activeCalls := [], redisCalls := Map.empty\<rparr>)))
     = [(''id'', created1)]
 \<and> getCall ''id'' world0 = (Inr None, world0)"
proof -
  have a: "map_of (activeCalls (world1\<lparr>redisUp := False, dbUp := False\<rparr>)) ''id'' = Some created1"
    by (simp add: sample_defs)
  have b: "map_of (activeCalls (world1\<lparr>activeCalls := [], dbUp := False\<rparr>)) ''id'' = None
      \<and> redisUp (world1\<lparr>activeCalls := [], dbUp := False\<rparr>)
      \<and> redisCalls (world1\<lparr>activeCalls := [], dbUp := False\<rparr>) ''id'' = Some (created1, Some 3600)"
    by (simp add: sample_defs)
  have c: "map_of (activeCalls (world1\<lparr>activeCalls := [], redisCalls := Map.empty\<rparr>)) ''id'' = None
      \<and> redisUp (world1\<lparr>activeCalls := [], redisCalls := Map.empty\<rparr>)
      \<and> redisCalls (world1\<lparr>activeCalls := [], redisCalls := Map.empty\<rparr>) ''id'' = None
      \<and> dbUp (world1\<lparr>activeCalls := [], redisCalls := Map.empty\<rparr>)
      \<and> dbCalls (world1\<lparr>activeCalls := [], redisCalls := Map.empty\<rparr>) ''id'' = Some created1"
    by (simp add: sample_defs)
  have d: "map_of (activeCalls world0) ''id'' = None \<and> redisCalls world0 ''id'' = None
      \<and> dbCalls world0 ''id'' = None \<and> redisUp world0 \<and> dbUp world0"
    by (simp add: sample_defs)
  have a': "getCall ''id'' (world1\<lparr>redisUp := False, dbUp := False\<rparr>)
     = (Inr (Some created1), world1\<lparr>redisUp := False, dbUp := False\<rparr>)"
    using a getCall_tiers [of "world1\<lparr>redisUp := False, dbUp := False\<rparr>" "''id''" created1]
    by blast
  have b': "fst (getCall ''id'' (world1\<lparr>activeCalls := [], dbUp := False\<rparr>)) = Inr (Some created1)
     \<and> map_of (activeCalls (snd (getCall ''id'' (world1\<lparr>activeCalls := [], dbUp := False\<rparr>)))) ''id''
        = Some created1"
    using b getCall_tiers [of "world1\<lparr>activeCalls := [], dbUp := False\<rparr>" "''id''" created1 "Some 3600"]
    by blast
  have c': "fst (getCall ''id'' (world1\<lparr>activeCalls := [], redisCalls := Map.empty\<rparr>))
       = Inr (Some created1)
     \<and> redisCalls (snd (getCall ''id'' (world1\<lparr>activeCalls := [], redisCalls := Map.empty\<rparr>)))
       = (redisCalls (world1\<lparr>activeCalls := [], redisCalls := Map.empty\<rparr>))
           (''id'' \<mapsto> (created1, Some 3600))"
    using c getCall_tiers [of "world1\<lparr>activeCalls := [], redisCalls := Map.empty\<rparr>" "''id''" created1]
    by blast
  have d': "getCall ''id'' world0 = (Inr None, world0)"
    using d getCall_tiers [of world0 "''id''"] by blast
  have e: "activeCalls (snd (getCall ''id'' (world1\<lparr>activeCalls := [], dbUp := False\<rparr>)))
       = [(''id'', created1)]"
      "activeCalls (snd (getCall ''id'' (world1\<lparr>activeCalls := [], redisCalls := Map.empty\<rparr>)))
       = [(''id'', created1)]"
    by (simp_all add: mgr_defs sample_defs)
  show ?thesis
    using a' b' c' d' e by simp
qed

section \<open>Unknown identifiers\<close>

text \<open>
  C7: for an identifier that has no call, neither in the \<open>Map\<close> nor in Redis nor in the
  table, and with both collaborators up, \<open>getCall\<close> returns \<open>null\<close>, \<open>updateCallStatus\<close> and
  \<open>endCall\<close> throw the not-found error, and each of the three leaves the whole state as
  it was: the \<open>Map\<close>, Redis and the table included.
\<close>

theorem missing_call_not_found:
  assumes "map_of (activeCalls s) callId = None" "redisCalls s callId = None"
    "dbCalls s callId = None" "redisUp s" "dbUp s"
  shows "getCall callId s = (Inr None, s)
    \<and> updateCallStatus callId st s = (Inl (NotFound callId), s)
    \<and> endCall callId endData s = (Inl (NotFound callId), s)"
  using assms
  by (simp add: updateCallStatus_def endCall_def mgr_defs)

theorem missing_call_not_found_witness:
  "map_of (activeCalls world1) ''id*'' = None \<and> redisCalls world1 ''id*'' = None
   \<and> dbCalls world1 ''id*'' = None \<and> redisUp world1 \<and> dbUp world1
   \<and> getCall ''id*'' world1 = (Inr None, world1)
   \<and> updateCallStatus ''id*'' Completed world1 = (Inl (NotFound ''id*''), world1)
   \<and> endCall ''id*'' (no_fields\<lparr>p_duration := Some 42\<rparr>) world1 = (Inl (NotFound ''id*''), world1)"
proof -
  have h: "map_of (activeCalls world1) ''id*'' = None" "redisCalls world1 ''id*'' = None"
    "dbCalls world1 ''id*'' = None" "redisUp world1" "dbUp world1"
    by (simp_all add: sample_defs)
  show ?thesis
    using h missing_call_not_found [OF h, of Completed "no_fields\<lparr>p_duration := Some 42\<rparr>"]
    by simp
qed


section \<open>The status that is returned and the status that is stored\<close>



section \<open>Creating a call\<close>

lemma phone_pattern_length: "phone_pattern v \<Longrightarrow> length v \<le> 16"
proof (cases v)
  case Nil
  then show ?thesis by simp
next
  case (Cons c cs)
  assume p: "phone_pattern v"
  show ?thesis
  proof (cases "c = CHR ''+''")
    case True
    with p Cons show ?thesis
      by (cases cs) (simp_all add: phone_pattern_def)
  next
    case False
    with p Cons show ?thesis
      by (simp add: phone_pattern_def)
  qed
qed

lemma phone_pattern_fits: "phone_pattern v \<Longrightarrow> varchar20 v = Some v"
  using phone_pattern_length [of v] by (simp add: varchar20_def)

lemma uuid_fresh_world0: "uuid_fresh world0"
  by (simp add: uuid_fresh_def world0_def)

text \<open>
  C5, as the specification has it, promises a call for every valid draft, with equal
  creation and update timestamps. The record is built with two readings of the clock,
  one after the other; on a clock that ticks between them, as that of \<open>world0\<close> does,
  they differ. And a draft that the schema accepts may name a client that has no row:
  the table refuses the INSERT, and \<open>createCall\<close> throws.
\<close>

theorem createCall_timestamps_counterexample:
  "valid_draft draft1 \<and> dbUp world0 \<and> redisUp world0
   \<and> createCall draft1 world0 = (Inr created1, world1)
   \<and> c_createdAt created1 = 1000 \<and> c_updatedAt created1 = 1001
   \<and> c_createdAt created1 \<noteq> c_updatedAt created1
   \<and> valid_draft draft3 \<and> p_clientId draft3 = Some ''nobody'' \<and> ''nobody'' \<notin> dbClients world0
   \<and> fst (createCall draft3 world0) = Inl DbRejected
   \<and> dbCalls (snd (createCall draft3 world0)) ''id'' = None"
  using createCall_world0
  by (simp add: valid_draft_def phone_pattern_def sample_defs draft3_def createCall_def
      mgr_defs assign_def row_of_def or_null_def or_null_num_def Let_def)

text \<open>
  C5, amended: for every valid draft whose client, if it names one, has a row, with
  both collaborators up and the uuid library keeping its contract, \<open>createCall\<close> returns
  a call with a freshly assigned identifier: the uuid just made, which no call had in the
  table, in Redis or in the \<open>Map\<close>, and the contract holds on. The call has the status
  \<open>initiated\<close>, which is not terminal, duration 0, the phone number, direction and client
  of the draft, and as \<open>createdAt\<close> the first and as \<open>updatedAt\<close> the second of two successive
  readings of the clock; and \<open>getCall\<close> on that id, right after, returns the same call and
  changes nothing.
\<close>

theorem createCall_valid_draft:
  assumes "valid_draft d" "references_client s (p_clientId d)" "uuid_fresh s"
    "dbUp s" "redisUp s"
  shows "\<exists>call s'. createCall d s = (Inr call, s')
     \<and> c_id call = uuidSource s (uuidCount s)
     \<and> dbCalls s (c_id call) = None \<and> redisCalls s (c_id call) = None
     \<and> map_of (activeCalls s) (c_id call) = None
     \<and> uuid_fresh s'
     \<and> c_status call = Initiated \<and> c_duration call = 0
     \<and> c_createdAt call = clock s (clockReads s)
     \<and> c_updatedAt call = clock s (Suc (clockReads s))
     \<and> Some (c_phoneNumber call) = p_phoneNumber d
     \<and> Some (c_direction call) = p_direction d
     \<and> c_clientId call = p_clientId d
     \<and> \<not> terminal (c_status call)
     \<and> getCall (c_id call) s' = (Inr (Some call), s')"
proof -
  from assms(1) obtain pn dir where d: "p_phoneNumber d = Some pn" "p_direction d = Some dir"
    "phone_pattern pn"
    by (auto simp: valid_draft_def split: option.splits)
  have v: "p_clientId d \<noteq> Some []" "p_id d = None"
    "p_status d = None \<or> p_status d = Some Initiated" "p_duration d = None"
    "p_recordingUrl d = None" "p_transcript d = None" "p_summary d = None"
    "p_sentiment d = None" "p_confidenceScore d = None" "p_createdAt d = None"
    "p_updatedAt d = None"
    using assms(1) by (simp_all add: valid_draft_def)
  have o: "or_null (p_clientId d) = p_clientId d"
    using v(1) by (simp add: or_null_def split: option.splits)
  define u where "u = uuidSource s (uuidCount s)"
  have f: "dbCalls s u = None" "redisCalls s u = None" "map_of (activeCalls s) u = None"
    using assms(3) by (simp_all add: uuid_fresh_def u_def)
  have later: "\<And>n. Suc (uuidCount s) \<le> n \<Longrightarrow> uuidSource s n \<noteq> u"
  proof -
    fix n assume "Suc (uuidCount s) \<le> n"
    then have "uuidCount s \<le> uuidCount s \<and> uuidCount s < n" by simp
    with assms(3) have "uuidSource s (uuidCount s) \<noteq> uuidSource s n"
      unfolding uuid_fresh_def by blast
    then show "uuidSource s n \<noteq> u" by (simp add: u_def)
  qed
  define call where "call = \<lparr>c_id = u, c_clientId = p_clientId d, c_phoneNumber = pn,
     c_direction = dir, c_status = Initiated, c_duration = 0, c_recordingUrl = None,
     c_transcript = None, c_summary = None, c_sentiment = None, c_confidenceScore = None,
     c_createdAt = clock s (clockReads s), c_updatedAt = clock s (Suc (clockReads s))\<rparr>"
  define s3 where "s3 = s\<lparr>uuidCount := Suc (uuidCount s), clockReads := Suc (Suc (clockReads s))\<rparr>"
  define s' where "s' = s3\<lparr>dbCalls := (dbCalls s)(u \<mapsto> call),
     redisCalls := (redisCalls s)(u \<mapsto> (call, Some 3600)),
     activeCalls := AList.update u call (activeCalls s),
     emitted := emitted s @ [CallCreated call]\<rparr>"
  have n: "or_null None = None"
    by (simp add: or_null_def)
  have c: "c_id call = u" "c_status call = Initiated" "c_duration call = 0"
      "c_createdAt call = clock s (clockReads s)"
      "c_updatedAt call = clock s (Suc (clockReads s))"
      "c_phoneNumber call = pn" "c_direction call = dir" "c_clientId call = p_clientId d"
      "c_confidenceScore call = None"
    by (simp_all add: call_def)
  have r: "createCall d s = (Inr call, s')"
    using d v(2-11) o n f assms(2,4,5) phone_pattern_fits [OF d(3)]
    by (auto simp: createCall_def db_createCall_def redis_set_call_def new_Date_def uuidv4_def
        ttl_of_def references_client_def int4_def decimal_3_2_def assign_def Let_def
        row_of_def or_null_num_def u_def call_def s'_def s3_def split: option.splits)
  have t: "uuidSource s' = uuidSource s" "uuidCount s' = Suc (uuidCount s)"
      "dbCalls s' = (dbCalls s)(u \<mapsto> call)"
      "redisCalls s' = (redisCalls s)(u \<mapsto> (call, Some 3600))"
      "activeCalls s' = AList.update u call (activeCalls s)"
    by (simp_all add: s'_def s3_def)
  have fresh': "uuid_fresh s'"
    unfolding uuid_fresh_def
  proof (intro conjI allI impI)
    fix n m assume "uuidCount s' \<le> n \<and> n < m"
    then have "uuidCount s \<le> n \<and> n < m" by (simp add: t)
    with assms(3) show "uuidSource s' n \<noteq> uuidSource s' m"
      unfolding uuid_fresh_def t by blast
  next
    fix n assume n: "uuidCount s' \<le> n"
    then have ne: "uuidSource s n \<noteq> u" using later by (simp add: t)
    from n have "uuidCount s \<le> n" by (simp add: t)
    with assms(3) have old: "dbCalls s (uuidSource s n) = None"
      "redisCalls s (uuidSource s n) = None" "map_of (activeCalls s) (uuidSource s n) = None"
      by (simp_all add: uuid_fresh_def)
    show "dbCalls s' (uuidSource s' n) = None" using ne old by (simp add: t)
    show "redisCalls s' (uuidSource s' n) = None" using ne old by (simp add: t)
    show "map_of (activeCalls s') (uuidSource s' n) = None"
      using ne old by (simp add: t AList.update_conv')
  qed
  have g: "getCall (c_id call) s' = (Inr (Some call), s')"
    by (simp add: getCall_def c t AList.update_conv')
  show ?thesis
    using r c f fresh' g d by (simp add: u_def)
qed

theorem createCall_valid_draft_witness:
  "valid_draft draft4 \<and> references_client world0 (p_clientId draft4) \<and> uuid_fresh world0
   \<and> dbUp world0 \<and> redisUp world0
   \<and> (\<exists>call s'. createCall draft4 world0 = (Inr call, s')
        \<and> c_id call = ''id'' \<and> dbCalls world0 ''id'' = None \<and> uuid_fresh s'
        \<and> c_status call = Initiated \<and> c_duration call = 0
        \<and> c_createdAt call = 1000 \<and> c_updatedAt call = 1001
        \<and> c_phoneNumber call = ''+79990000001'' \<and> c_direction call = Incoming
        \<and> c_clientId call = Some ''client''
        \<and> getCall (c_id call) s' = (Inr (Some call), s'))"
proof -
  have h: "valid_draft draft4" "references_client world0 (p_clientId draft4)"
    "uuid_fresh world0" "dbUp world0" "redisUp world0"
    using uuid_fresh_world0
    by (simp_all add: valid_draft_def phone_pattern_def references_client_def draft4_def
        sample_defs)
  have k: "uuidSource world0 (uuidCount world0) = ''id''"
    "clock world0 (clockReads world0) = 1000" "clock world0 (Suc (clockReads world0)) = 1001"
    "p_phoneNumber draft4 = Some ''+79990000001''" "p_direction draft4 = Some Incoming"
    "p_clientId draft4 = Some ''client''"
    by (simp_all add: draft4_def sample_defs)
  from createCall_valid_draft [OF h]
  show ?thesis
    using h k by auto
qed

section \<open>Updating the status of a terminal call\<close>

text \<open>
  C2, as the specification has it, makes a status update of a terminal call a no-op.
  \<open>updateCallStatus\<close> has no test of the current status. In \<open>world1\<close> the call \<open>id\<close> is
  completed by a first update, which gives \<open>world2\<close>; a second update to \<open>completed\<close>
  succeeds as well, and it stamps \<open>updatedAt\<close> anew (1004 for 1002), writes the call to
  Redis again and stamps the row anew (1005 for 1003). A later update to \<open>ringing\<close> takes
  the call out of its terminal status.
\<close>

theorem updateCallStatus_terminal_counterexample:
  "updateCallStatus ''id'' Completed world1 = (Inr done1, world2)
   \<and> terminal (c_status done1)
   \<and> c_updatedAt done1 = 1002
   \<and> redisCalls world2 ''id'' = Some (done1, Some 3600)
   \<and> map_option c_updatedAt (dbCalls world2 ''id'') = Some 1003
   \<and> fst (updateCallStatus ''id'' Completed world2) = Inr (done1\<lparr>c_updatedAt := 1004\<rparr>)
   \<and> redisCalls (snd (updateCallStatus ''id'' Completed world2)) ''id''
       = Some (done1\<lparr>c_updatedAt := 1004\<rparr>, Some 3600)
   \<and> map_option c_updatedAt (dbCalls (snd (updateCallStatus ''id'' Completed world2)) ''id'')
       = Some 1005
   \<and> map_option c_status (map_of (activeCalls (snd (updateCallStatus ''id'' Ringing world2))) ''id'')
       = Some Ringing
   \<and> map_option c_status (dbCalls (snd (updateCallStatus ''id'' Ringing world2)) ''id'')
       = Some Ringing"
  using update_world1
  by (simp add: updateCallStatus_def mgr_defs sample_defs world2_def done1_def Let_def
      status_only_def set_columns_def)

text \<open>
  C2, amended: for every call that has its row, terminal or not, with both collaborators
  up, \<open>updateCallStatus\<close> reports success and applies the request as it applies any other:
  the call it returns is the call \<open>getCall\<close> found with the requested status and a fresh
  \<open>updatedAt\<close>; the row gets the requested status and a fresh \<open>updated_at\<close>; the call is
  written to Redis again, for 3600 s, and to the \<open>Map\<close>; and \<open>call:statusUpdated\<close> is emitted
  with the old and the new status.
\<close>

theorem updateCallStatus_applies:
  assumes "dbCalls s callId = Some row" "dbUp s" "redisUp s"
  shows "\<exists>c s1 c' s'. getCall callId s = (Inr (Some c), s1)
     \<and> updateCallStatus callId st s = (Inr c', s')
     \<and> c' = c\<lparr>c_status := st, c_updatedAt := clock s (clockReads s)\<rparr>
     \<and> dbCalls s' callId =
         Some (row\<lparr>c_status := st, c_updatedAt := clock s (Suc (clockReads s))\<rparr>)
     \<and> redisCalls s' callId = Some (c', Some 3600)
     \<and> map_of (activeCalls s') callId = Some c'
     \<and> emitted s' = emitted s @ [CallStatusUpdated c' (c_status c) st]"
proof -
  from getCall_finds [OF assms] obtain c s1 where g: "getCall callId s = (Inr (Some c), s1)"
    by blast
  note st = getCall_found_state [OF g]
  show ?thesis
    using assms st
    by (simp add: g updateCallStatus_def Let_def db_updateCall_def new_Date_def
        redis_set_call_def ttl_of_def AList.update_conv' set_columns_def status_only_def
        no_fields_def)
qed

theorem updateCallStatus_applies_witness:
  "dbCalls world2 ''id'' = Some (created1\<lparr>c_status := Completed, c_updatedAt := 1003\<rparr>)
   \<and> dbUp world2 \<and> redisUp world2
   \<and> getCall ''id'' world2 = (Inr (Some done1), world2) \<and> terminal (c_status done1)
   \<and> (\<exists>c' s'. updateCallStatus ''id'' Completed world2 = (Inr c', s')
        \<and> c' = done1\<lparr>c_status := Completed, c_updatedAt := 1004\<rparr>
        \<and> dbCalls s' ''id'' = Some (created1\<lparr>c_status := Completed, c_updatedAt := 1005\<rparr>)
        \<and> redisCalls s' ''id'' = Some (c', Some 3600)
        \<and> map_of (activeCalls s') ''id'' = Some c'
        \<and> emitted s' = emitted world2 @ [CallStatusUpdated c' Completed Completed])"
proof -
  have h: "dbCalls world2 ''id'' = Some (created1\<lparr>c_status := Completed, c_updatedAt := 1003\<rparr>)"
    "dbUp world2" "redisUp world2"
    by (simp_all add: world2_def sample_defs)
  have g: "getCall ''id'' world2 = (Inr (Some done1), world2)"
    by (simp add: getCall_def world2_def sample_defs)
  have t: "terminal (c_status done1)"
    by (simp add: done1_def)
  have k: "clock world2 (clockReads world2) = 1004" "clock world2 (Suc (clockReads world2)) = 1005"
    "c_status done1 = Completed"
    by (simp_all add: world2_def sample_defs done1_def)
  from updateCallStatus_applies [OF h, of Completed]
  show ?thesis
    using h g t k by auto
qed

section \<open>Sessions\<close>

text \<open>
  C1, as the specification has it, makes \<open>createCallSession\<close> fail for an identifier that
  names no call. \<open>createCallSession\<close> never asks for the call. In \<open>world0\<close>, where \<open>getCall\<close>
  finds nothing for \<open>ghost\<close>, it succeeds, and the session is in Redis and in the \<open>Map\<close> of
  active sessions.
\<close>

theorem createCallSession_unknown_call_counterexample:
  "getCall ''ghost'' world0 = (Inr None, world0)
   \<and> fst (createCallSession ''ghost'' None world0) = Inr ghost_session
   \<and> redisSessions (snd (createCallSession ''ghost'' None world0)) ''id''
       = Some (ghost_session, Some 3600)
   \<and> activeSessions (snd (createCallSession ''ghost'' None world0)) = [(''id'', ghost_session)]
   \<and> getActiveSessions (snd (createCallSession ''ghost'' None world0)) = [ghost_session]"
  by (simp add: createCallSession_def redis_set_session_def mgr_defs sample_defs
      ghost_session_def getActiveSessions_def Let_def)

text \<open>
  C1, amended: \<open>createCallSession\<close> does not look the call up. For every identifier,
  whether it names a call or not, with Redis up it succeeds: the session it returns is
  active and bound to that identifier and to a fresh uuid, it is written to Redis for
  3600 s and put into the \<open>Map\<close> of active sessions, and the \<open>Map\<close> of active calls, the
  calls in Redis and the table stay as they were. It fails only when Redis is down, with
  the error of Redis, and then no session is written.
\<close>

theorem createCallSession_no_lookup:
  "(redisUp s \<longrightarrow>
      (\<exists>session s'. createCallSession callId userId s = (Inr session, s')
        \<and> s_callId session = callId \<and> s_userId session = userId
        \<and> s_sessionId session = uuidSource s (uuidCount s) \<and> s_isActive session
        \<and> redisSessions s' (s_sessionId session) = Some (session, Some 3600)
        \<and> map_of (activeSessions s') (s_sessionId session) = Some session
        \<and> activeCalls s' = activeCalls s \<and> redisCalls s' = redisCalls s
        \<and> dbCalls s' = dbCalls s))
 \<and> (\<not> redisUp s \<longrightarrow>
      fst (createCallSession callId userId s) = Inl RedisFailure
      \<and> activeSessions (snd (createCallSession callId userId s)) = activeSessions s
      \<and> redisSessions (snd (createCallSession callId userId s)) = redisSessions s)"
  by (simp add: createCallSession_def redis_set_session_def new_Date_def uuidv4_def ttl_of_def
      Let_def AList.update_conv')

theorem createCallSession_no_lookup_witness:
  "redisUp world0 \<and> getCall ''ghost'' world0 = (Inr None, world0)
   \<and> (\<exists>session s'. createCallSession ''ghost'' None world0 = (Inr session, s')
        \<and> s_callId session = ''ghost'' \<and> s_sessionId session = ''id'' \<and> s_isActive session
        \<and> redisSessions s' ''id'' = Some (session, Some 3600)
        \<and> map_of (activeSessions s') ''id'' = Some session)
   \<and> \<not> redisUp (world0\<lparr>redisUp := False\<rparr>)
   \<and> fst (createCallSession ''ghost'' None (world0\<lparr>redisUp := False\<rparr>)) = Inl RedisFailure
   \<and> activeSessions (snd (createCallSession ''ghost'' None (world0\<lparr>redisUp := False\<rparr>))) = []"
proof -
  have h: "redisUp world0" "\<not> redisUp (world0\<lparr>redisUp := False\<rparr>)"
    "uuidSource world0 (uuidCount world0) = ''id''"
    "activeSessions (world0\<lparr>redisUp := False\<rparr>) = []"
    by (simp_all add: sample_defs)
  have g: "getCall ''ghost'' world0 = (Inr None, world0)"
    by (simp add: mgr_defs sample_defs)
  from createCallSession_no_lookup [of world0 "''ghost''" None]
    createCallSession_no_lookup [of "world0\<lparr>redisUp := False\<rparr>" "''ghost''" None]
  show ?thesis
    using h g by auto
qed


section \<open>The sample states of the signaling handler\<close>

lemmas web_defs = web0_def web1_def web2_def web12_def web123_def world12_def handleJoinCall_def
  createCall_def assign_def row_of_def or_null_def or_null_num_def room_of_def Let_def

lemma web1_facts:
  "socketToConnection web1 ''S1'' = Some ''id-S1''"
  "rooms web1 (room_of ''id'') = {''S1''}"
  "fst (getCall ''id*'' (callManager web1)) = Inr (Some
     \<lparr>c_id = ''id*'', c_clientId = None, c_phoneNumber = ''+79990000002'',
      c_direction = Outgoing, c_status = Initiated, c_duration = 0, c_recordingUrl = None,
      c_transcript = None, c_summary = None, c_sentiment = None, c_confidenceScore = None,
      c_createdAt = 1002, c_updatedAt = 1003\<rparr>)"
  "activeConnections web1 ''id-S1'' = Some
     \<lparr>w_id = ''id-S1'', w_callId = ''id'', w_socketId = ''S1'', w_userId = None,
      w_status = Connected, w_startTime = 1004, w_endTime = None, w_duration = None,
      w_localSDP = None, w_remoteSDP = None, w_iceCandidates = []\<rparr>"
  by (simp_all add: web_defs mgr_defs sample_defs)

lemma web12_facts:
  "socketToConnection web12 ''S1'' = Some ''id-S1''"
  "socketToConnection web12 ''S3'' = None"
  "rooms web12 (room_of ''id'') = {''S1'', ''S2''}"
  "activeConnections web12 ''id-S1'' = Some
     \<lparr>w_id = ''id-S1'', w_callId = ''id'', w_socketId = ''S1'', w_userId = None,
      w_status = Connected, w_startTime = 1004, w_endTime = None, w_duration = None,
      w_localSDP = None, w_remoteSDP = None, w_iceCandidates = []\<rparr>"
  "sent web12 = [Message {''S1''} ''joined-call'' (JoinedCall ''id'' ''id-S1''),
                 Message {''S2''} ''joined-call'' (JoinedCall ''id'' ''id-S2'')]"
  by (auto simp: web_defs mgr_defs sample_defs)

section \<open>Relaying offers, answers and candidates\<close>

text \<open>
  C8, as the specification has it, relays to the other connections of the sender's own
  call. The handlers take the room from the \<open>callId\<close> of the message and never compare it
  with the call of the sender's connection. In \<open>web123\<close> the sockets \<open>S1\<close> and \<open>S2\<close> are in
  the call \<open>id\<close> and \<open>S3\<close> is in the call \<open>id*\<close>; an offer of \<open>S1\<close> that names \<open>id*\<close> goes to
  \<open>S3\<close> alone, and \<open>S2\<close>, the other connection of \<open>S1\<close>'s call, gets nothing.
\<close>

theorem relay_other_call_counterexample:
  "socketToConnection web123 ''S1'' = Some ''id-S1''
   \<and> map_option w_callId (activeConnections web123 ''id-S1'') = Some ''id''
   \<and> rooms web123 (room_of ''id'') = {''S1'', ''S2''}
   \<and> rooms web123 (room_of ''id*'') = {''S3''}
   \<and> fst (handleOffer ''S1'' ''id*'' ''v=0'' web123) = Inr ()
   \<and> last (sent (snd (handleOffer ''S1'' ''id*'' ''v=0'' web123)))
       = Message {''S3''} ''offer'' (SdpFrom ''id*'' ''v=0'' ''S1'')
   \<and> ''S2'' \<notin> recipients (last (sent (snd (handleOffer ''S1'' ''id*'' ''v=0'' web123))))
   \<and> ''S3'' \<notin> rooms web123 (room_of ''id'')"
  by (auto simp: web_defs mgr_defs sample_defs handleOffer_def)

text \<open>
  C8, amended: for a socket that has a connection, \<open>handleOffer\<close> and \<open>handleAnswer\<close>
  succeed and replace the connection's local and remote SDP, and \<open>handleIceCandidate\<close>
  appends the candidate to the connection's list. Each sends one message, to the sockets
  that are in the room of the call that the request names by its \<open>callId\<close>, the sender
  left out, and the payload names the sender's socket id as \<open>from\<close>; these are the other
  connections of the sender's own call when the request names that call. For a socket
  without a connection, \<open>handleOffer\<close> and \<open>handleAnswer\<close> throw "connection not found" and
  change nothing.
\<close>

theorem relay_to_others:
  "(socketToConnection w socket = Some cid \<and> activeConnections w cid = Some conn \<longrightarrow>
      fst (handleOffer socket callId sdp w) = Inr ()
      \<and> activeConnections (snd (handleOffer socket callId sdp w)) cid
          = Some (conn\<lparr>w_localSDP := Some sdp\<rparr>)
      \<and> sent (snd (handleOffer socket callId sdp w))
          = sent w @ [Message (rooms w (room_of callId) - {socket}) ''offer''
                        (SdpFrom callId sdp socket)]
      \<and> fst (handleAnswer socket callId sdp w) = Inr ()
      \<and> activeConnections (snd (handleAnswer socket callId sdp w)) cid
          = Some (conn\<lparr>w_remoteSDP := Some sdp\<rparr>)
      \<and> sent (snd (handleAnswer socket callId sdp w))
          = sent w @ [Message (rooms w (room_of callId) - {socket}) ''answer''
                        (SdpFrom callId sdp socket)]
      \<and> activeConnections (handleIceCandidate socket callId candidate w) cid
          = Some (conn\<lparr>w_iceCandidates := w_iceCandidates conn @ [candidate]\<rparr>)
      \<and> sent (handleIceCandidate socket callId candidate w)
          = sent w @ [Message (rooms w (room_of callId) - {socket}) ''ice-candidate''
                        (CandidateFrom callId candidate socket)]
      \<and> socket \<notin> rooms w (room_of callId) - {socket})
 \<and> (socketToConnection w socket = None
      \<or> (socketToConnection w socket = Some cid \<and> activeConnections w cid = None) \<longrightarrow>
      handleOffer socket callId sdp w = (Inl ConnectionNotFound, w)
      \<and> handleAnswer socket callId sdp w = (Inl ConnectionNotFound, w))"
  by (auto simp: handleOffer_def handleAnswer_def handleIceCandidate_def Let_def)

theorem relay_to_others_witness:
  "socketToConnection web12 ''S1'' = Some ''id-S1''
   \<and> rooms web12 (room_of ''id'') = {''S1'', ''S2''}
   \<and> fst (handleOffer ''S1'' ''id'' ''v=0'' web12) = Inr ()
   \<and> map_option w_localSDP (activeConnections (snd (handleOffer ''S1'' ''id'' ''v=0'' web12)) ''id-S1'')
       = Some (Some ''v=0'')
   \<and> sent (snd (handleOffer ''S1'' ''id'' ''v=0'' web12))
       = sent web12 @ [Message {''S2''} ''offer'' (SdpFrom ''id'' ''v=0'' ''S1'')]
   \<and> map_option w_iceCandidates (activeConnections (handleIceCandidate ''S1'' ''id'' ''cand'' web12) ''id-S1'')
       = Some [''cand'']
   \<and> socketToConnection web12 ''S3'' = None
   \<and> handleOffer ''S3'' ''id'' ''v=0'' web12 = (Inl ConnectionNotFound, web12)
   \<and> handleAnswer ''S3'' ''id'' ''v=0'' web12 = (Inl ConnectionNotFound, web12)"
proof -
  have r: "{''S1'', ''S2''} - {''S1''} = {''S2''}"
    by auto
  from relay_to_others [of web12 "''S1''" "''id-S1''" _ "''id''" "''v=0''" "''cand''"]
    relay_to_others [of web12 "''S3''" "''none''" _ "''id''" "''v=0''" "''cand''"]
  show ?thesis
    using web12_facts r by simp
qed

section \<open>Joining a second call\<close>

text \<open>
  C3, as the specification has it, keeps a socket in at most one call's group, a join
  leaving the call joined before. \<open>handleJoinCall\<close> leaves nothing. From a handler that
  has just started, socket \<open>S1\<close> joins the call \<open>id\<close> and then the call \<open>id*\<close>: it is in the
  rooms of both calls, and both connection records are in \<open>activeConnections\<close>. A
  \<open>leaveCall\<close> after that takes it out of the second room only.
\<close>

theorem join_two_calls_counterexample:
  "fst (handleJoinCall ''S1'' ''id'' None web0) = Inr ()
   \<and> fst (handleJoinCall ''S1'' ''id*'' None web1) = Inr ()
   \<and> ''S1'' \<in> rooms web2 (room_of ''id'') \<and> ''S1'' \<in> rooms web2 (room_of ''id*'')
   \<and> room_of ''id'' \<noteq> room_of ''id*''
   \<and> map_option w_callId (activeConnections web2 ''id-S1'') = Some ''id''
   \<and> map_option w_callId (activeConnections web2 ''id*-S1'') = Some ''id*''
   \<and> socketToConnection web2 ''S1'' = Some ''id*-S1''
   \<and> ''S1'' \<in> rooms (handleLeaveCall ''S1'' web2) (room_of ''id'')
   \<and> ''S1'' \<notin> rooms (handleLeaveCall ''S1'' web2) (room_of ''id*'')
   \<and> map_option w_callId (activeConnections (handleLeaveCall ''S1'' web2) ''id-S1'') = Some ''id''"
  by (simp add: web_defs mgr_defs sample_defs handleLeaveCall_def)

text \<open>
  C3, amended: a socket has at most one current connection, that of its latest join,
  and a join removes nothing. For every call that \<open>getCall\<close> finds, \<open>handleJoinCall\<close>
  succeeds; after it the socket is in the room of that call, every room has all the
  sockets it had before (so a socket that was in the room of another call is now in
  both), the socket is mapped to the new connection \<open>`${callId}-${socket.id}`\<close>, which is
  \<open>connected\<close>, and every other connection record is as it was.
\<close>

theorem handleJoinCall_keeps_memberships:
  assumes "fst (getCall callId (callManager w)) = Inr (Some call)"
  shows "fst (handleJoinCall socket callId userId w) = Inr ()
     \<and> socket \<in> rooms (snd (handleJoinCall socket callId userId w)) (room_of callId)
     \<and> (\<forall>room. rooms w room \<subseteq> rooms (snd (handleJoinCall socket callId userId w)) room)
     \<and> socketToConnection (snd (handleJoinCall socket callId userId w)) socket
         = Some (callId @ ''-'' @ socket)
     \<and> (\<forall>k. k \<noteq> callId @ ''-'' @ socket \<longrightarrow>
           activeConnections (snd (handleJoinCall socket callId userId w)) k
             = activeConnections w k)
     \<and> (\<exists>conn. activeConnections (snd (handleJoinCall socket callId userId w))
                   (callId @ ''-'' @ socket) = Some conn
           \<and> w_callId conn = callId \<and> w_socketId conn = socket \<and> w_status conn = Connected)"
proof -
  obtain m1 where g: "getCall callId (callManager w) = (Inr (Some call), m1)"
    using assms by (cases "getCall callId (callManager w)") simp
  show ?thesis
    by (auto simp: handleJoinCall_def g new_Date_def Let_def)
qed

theorem handleJoinCall_keeps_memberships_witness:
  "fst (getCall ''id*'' (callManager web1)) = Inr (Some
     \<lparr>c_id = ''id*'', c_clientId = None, c_phoneNumber = ''+79990000002'',
      c_direction = Outgoing, c_status = Initiated, c_duration = 0, c_recordingUrl = None,
      c_transcript = None, c_summary = None, c_sentiment = None, c_confidenceScore = None,
      c_createdAt = 1002, c_updatedAt = 1003\<rparr>)
   \<and> ''S1'' \<in> rooms web1 (room_of ''id'')
   \<and> fst (handleJoinCall ''S1'' ''id*'' None web1) = Inr ()
   \<and> ''S1'' \<in> rooms web2 (room_of ''id*'')
   \<and> ''S1'' \<in> rooms web2 (room_of ''id'')
   \<and> socketToConnection web2 ''S1'' = Some ''id*-S1''
   \<and> activeConnections web2 ''id-S1'' = activeConnections web1 ''id-S1''"
proof -
  have a: "''S1'' \<in> rooms web1 (room_of ''id'')"
    by (simp add: web1_facts)
  from handleJoinCall_keeps_memberships [OF web1_facts(3), of "''S1''" None]
  show ?thesis
    using web1_facts(3) a unfolding web2_def [symmetric] by auto
qed


section \<open>The sample states of the SIP service\<close>



section \<open>The end of a SIP session\<close>




end
